theory Spec2Isabelle
  imports Complex_Main "HOL-Library.Sublist"
begin

section \<open>NeuroChatAI: the conversational request pipeline of streamlit\_app.py\<close>

text \<open>
  A shallow embedding of the chat pipeline of \<^verbatim>\<open>src/streamlit_app.py\<close>: the session
  state, the rate-limit gate, the prompt builder, the completion client and the
  controller \<^verbatim>\<open>handle_user_input\<close>.

  Conventions of the embedding.
  \<^item> A Python \<^verbatim>\<open>str\<close> is a \<^typ>\<open>string\<close>; a character stands for a code point below 256.
  \<^item> \<^verbatim>\<open>time.time()\<close> and the two numeric settings are read from outside: the clock value
    is the argument \<open>now\<close>, the settings are the record \<open>config\<close>. Times are reals.
  \<^item> \<^verbatim>\<open>st.session_state\<close> is the record \<open>session_state\<close>; what the program shows, logs and
    posts is appended to the lists \<open>ui\<close>, \<open>logged\<close> and \<open>posted\<close> of the record \<open>world\<close>.
  \<^item> A Python exception that leaves a function is a value \<open>Some e\<close> / \<open>Inl e\<close>.
\<close>

subsection \<open>Strings\<close>

abbreviation LF :: char where
  "LF \<equiv> CHR 0x0A"

text \<open>\<^verbatim>\<open>sep.join(xs)\<close>\<close>

fun join :: "string \<Rightarrow> string list \<Rightarrow> string" where
  "join sep [] = []"
| "join sep [x] = x"
| "join sep (x # y # ys) = x @ sep @ join sep (y # ys)"

text \<open>\<^verbatim>\<open>str.isspace\<close> on one character, for the code points below 256.\<close>

definition py_isspace :: "char \<Rightarrow> bool" where
  "py_isspace c = (List.member [9, 10, 11, 12, 13, 28, 29, 30, 31, 32, 133, 160] (of_char c :: nat))"

text \<open>\<^verbatim>\<open>s.strip()\<close>\<close>

definition py_strip :: "string \<Rightarrow> string" where
  "py_strip s = rev (dropWhile py_isspace (rev (dropWhile py_isspace s)))"

text \<open>\<^verbatim>\<open>p in s\<close> for two strings: \<open>p\<close> occurs in \<open>s\<close> as a contiguous run.\<close>

fun str_contains :: "string \<Rightarrow> string \<Rightarrow> bool" where
  "str_contains p [] = (p = [])"
| "str_contains p (c # cs) = (take (length p) (c # cs) = p \<or> str_contains p cs)"

text \<open>\<^verbatim>\<open>xs[k:]\<close> with Python's rule for a negative or too large start.\<close>

definition py_slice_from :: "'a list \<Rightarrow> int \<Rightarrow> 'a list" where
  "py_slice_from xs k =
     (let n = int (length xs);
          start = (if k < 0 then max (n + k) 0 else min k n)
      in drop (nat start) xs)"

subsection \<open>Session state, settings and the visible effects\<close>

record message =
  role :: string
  content :: string

record session_state =
  messages :: "message list"
  api_health :: bool
  last_api_check :: "real option"
  system_prompt :: string
  chat_style :: string
  last_request_time :: real

text \<open>\<^verbatim>\<open>MAX_HISTORY_MESSAGES = int(os.getenv(...))\<close>, \<^verbatim>\<open>RATE_LIMIT_SECONDS = float(os.getenv(...))\<close>\<close>

record config =
  MAX_HISTORY_MESSAGES :: int
  RATE_LIMIT_SECONDS :: real

definition default_config :: config where
  "default_config = \<lparr>MAX_HISTORY_MESSAGES = 5, RATE_LIMIT_SECONDS = 1\<rparr>"

text \<open>The values \<^verbatim>\<open>initialize_session_state\<close> stores for the keys that are absent.\<close>

definition default_states :: session_state where
  "default_states =
     \<lparr>messages = [],
      api_health = True,
      last_api_check = None,
      system_prompt = ''You are a helpful AI assistant. '' @ [LF] @
        ''        You provide clear, accurate, and concise responses while being friendly and professional.'',
      chat_style = ''modern'',
      last_request_time = 0\<rparr>"

text \<open>
  An exception raised inside the \<^verbatim>\<open>try\<close> of \<^verbatim>\<open>send_request_to_model\<close>, described by what the
  three \<^verbatim>\<open>except\<close> clauses test (\<^verbatim>\<open>isinstance\<close> against
  \<^verbatim>\<open>requests.exceptions.Timeout\<close>, \<^verbatim>\<open>requests.exceptions.RequestException\<close> and
  \<^verbatim>\<open>json.JSONDecodeError\<close>) and by \<^verbatim>\<open>str(e)\<close>.
\<close>

record exception =
  is_Timeout :: bool
  is_RequestException :: bool
  is_JSONDecodeError :: bool
  str_e :: string

datatype py_exn = TypeError | KeyError | IndexError | AttributeError | Uncaught exception

text \<open>A decoded JSON document as Python sees it; \<open>JNull\<close> is \<^verbatim>\<open>None\<close>.\<close>

datatype json =
  JNull
| JBool bool
| JNum real
| JStr string
| JArr "json list"
| JObj "(string \<times> json) list"

text \<open>What \<^verbatim>\<open>requests.post(...)\<close>, \<^verbatim>\<open>raise_for_status()\<close> and \<^verbatim>\<open>response.json()\<close> do together.\<close>

datatype post_outcome = Raises exception | Returns json

record payload =
  prompt :: string
  max_tokens :: int
  temperature :: real
  model :: string
  stop :: "string list"

datatype ui_event =
  St_warning string
| St_warning_wait real
| St_error string
| St_success string
| St_chat_message string string

datatype log_entry =
  Logger_error string
| Logger_error_application py_exn

record world =
  session :: session_state
  ui :: "ui_event list"
  logged :: "log_entry list"
  posted :: "(string \<times> payload) list"

definition st_show :: "ui_event \<Rightarrow> world \<Rightarrow> world" where
  "st_show e w = w\<lparr>ui := ui w @ [e]\<rparr>"

definition logger_error :: "log_entry \<Rightarrow> world \<Rightarrow> world" where
  "logger_error l w = w\<lparr>logged := logged w @ [l]\<rparr>"

definition append_message :: "string \<Rightarrow> string \<Rightarrow> world \<Rightarrow> world" where
  "append_message r c w =
     w\<lparr>session := (session w)\<lparr>messages := messages (session w) @ [\<lparr>role = r, content = c\<rparr>]\<rparr>\<rparr>"

subsection \<open>Rate limiter (lines 120-133)\<close>

definition rate_limit_check :: "config \<Rightarrow> real \<Rightarrow> world \<Rightarrow> bool \<times> world" where
  "rate_limit_check cfg current_time w =
     (if current_time - last_request_time (session w) < RATE_LIMIT_SECONDS cfg
      then (False, st_show (St_warning_wait (RATE_LIMIT_SECONDS cfg)) w)
      else (True, w\<lparr>session := (session w)\<lparr>last_request_time := current_time\<rparr>\<rparr>))"

text \<open>A trace of gate calls at the clock values \<open>nows\<close>: the answers, in order.\<close>

fun rate_limit_trace :: "config \<Rightarrow> real list \<Rightarrow> world \<Rightarrow> bool list" where
  "rate_limit_trace cfg [] w = []"
| "rate_limit_trace cfg (t # ts) w =
     fst (rate_limit_check cfg t w) # rate_limit_trace cfg ts (snd (rate_limit_check cfg t w))"

subsection \<open>Prompt builder (lines 166-188)\<close>

definition format_message :: "message \<Rightarrow> string" where
  "format_message msg =
     (if role msg = ''user'' then ''Human:'' else ''Assistant:'') @ '' '' @ content msg"

definition build_prompt_with_history :: "config \<Rightarrow> session_state \<Rightarrow> string \<Rightarrow> string" where
  "build_prompt_with_history cfg s user_input =
     (let history0 = (if system_prompt s \<noteq> [] then [''System: '' @ system_prompt s @ [LF]] else []);
          history1 = history0 @
            map format_message (py_slice_from (messages s) (- MAX_HISTORY_MESSAGES cfg));
          history2 = history1 @ [''Human: '' @ user_input]
      in join [LF] history2 @ [LF] @ ''Assistant:'')"

subsection \<open>Completion client (lines 135-164)\<close>

definition send_request_to_model ::
  "(string \<Rightarrow> payload \<Rightarrow> post_outcome) \<Rightarrow> string \<Rightarrow> payload \<Rightarrow> world \<Rightarrow> (py_exn + json) \<times> world"
where
  "send_request_to_model post api_url pl w =
     (let w1 = w\<lparr>posted := posted w @ [(api_url, pl)]\<rparr> in
      case post api_url pl of
        Returns j \<Rightarrow> (Inr j, w1)
      | Raises e \<Rightarrow>
          if is_Timeout e then
            (Inr JNull,
             logger_error (Logger_error ''API request timed out'')
               (st_show (St_error ''Request timed out. Please try again.'') w1))
          else if is_RequestException e then
            (Inr JNull,
             logger_error (Logger_error (''API request failed: '' @ str_e e))
               (st_show (St_error (''API Error: '' @ str_e e)) w1))
          else if is_JSONDecodeError e then
            (Inr JNull,
             logger_error (Logger_error ''Failed to decode API response'')
               (st_show (St_error ''Invalid response from API'') w1))
          else (Inl (Uncaught e), w1))"

subsection \<open>Reading the response (lines 232-233)\<close>

fun truthy :: "json \<Rightarrow> bool" where
  "truthy JNull = False"
| "truthy (JBool b) = b"
| "truthy (JNum x) = (x \<noteq> 0)"
| "truthy (JStr s) = (s \<noteq> [])"
| "truthy (JArr xs) = (xs \<noteq> [])"
| "truthy (JObj kvs) = (kvs \<noteq> [])"

text \<open>\<^verbatim>\<open>key in v\<close> for a string \<open>key\<close>\<close>

fun py_in :: "string \<Rightarrow> json \<Rightarrow> py_exn + bool" where
  "py_in key (JObj kvs) = Inr (map_of kvs key \<noteq> None)"
| "py_in key (JArr xs) = Inr (List.member xs (JStr key))"
| "py_in key (JStr s) = Inr (str_contains key s)"
| "py_in key v = Inl TypeError"

text \<open>\<^verbatim>\<open>v[key]\<close> for a string \<open>key\<close>\<close>

fun py_getitem :: "json \<Rightarrow> string \<Rightarrow> py_exn + json" where
  "py_getitem (JObj kvs) key = (case map_of kvs key of None \<Rightarrow> Inl KeyError | Some x \<Rightarrow> Inr x)"
| "py_getitem v key = Inl TypeError"

text \<open>\<^verbatim>\<open>v[0]\<close>; the keys of a decoded JSON object are strings, so \<open>0\<close> is never one.\<close>

fun py_getitem0 :: "json \<Rightarrow> py_exn + json" where
  "py_getitem0 (JArr []) = Inl IndexError"
| "py_getitem0 (JArr (x # xs)) = Inr x"
| "py_getitem0 (JStr []) = Inl IndexError"
| "py_getitem0 (JStr (c # cs)) = Inr (JStr [c])"
| "py_getitem0 (JObj kvs) = Inl KeyError"
| "py_getitem0 v = Inl TypeError"

text \<open>\<^verbatim>\<open>v.strip()\<close>\<close>

fun py_strip_method :: "json \<Rightarrow> py_exn + string" where
  "py_strip_method (JStr s) = Inr (py_strip s)"
| "py_strip_method v = Inl AttributeError"

definition bind_exn :: "py_exn + 'a \<Rightarrow> ('a \<Rightarrow> py_exn + 'b) \<Rightarrow> py_exn + 'b" where
  "bind_exn r f = (case r of Inl e \<Rightarrow> Inl e | Inr x \<Rightarrow> f x)"

text \<open>\<^verbatim>\<open>response and "choices" in response and response["choices"]\<close>, as a truth value\<close>

definition response_has_choices :: "json \<Rightarrow> py_exn + bool" where
  "response_has_choices response =
     (if \<not> truthy response then Inr False
      else bind_exn (py_in ''choices'' response) (\<lambda>b.
        if \<not> b then Inr False
        else bind_exn (py_getitem response ''choices'') (\<lambda>c. Inr (truthy c))))"

text \<open>\<^verbatim>\<open>response["choices"][0]["text"].strip()\<close>\<close>

definition response_text :: "json \<Rightarrow> py_exn + string" where
  "response_text response =
     bind_exn (py_getitem response ''choices'') (\<lambda>c.
     bind_exn (py_getitem0 c) (\<lambda>c0.
     bind_exn (py_getitem c0 ''text'') py_strip_method))"

subsection \<open>Controller (lines 190-239)\<close>

definition handle_user_input ::
  "config \<Rightarrow> (string \<Rightarrow> payload \<Rightarrow> post_outcome) \<Rightarrow> real \<Rightarrow>
   string \<Rightarrow> string \<Rightarrow> string \<Rightarrow> real \<Rightarrow> int \<Rightarrow> world \<Rightarrow> py_exn option \<times> world"
where
  "handle_user_input cfg post now user_input api_url model_name temp max_tok w =
     (case rate_limit_check cfg now w of
        (False, w1) \<Rightarrow> (None, w1)
      | (True, w1) \<Rightarrow>
          if py_strip user_input = [] then
            (None, st_show (St_warning ''Please enter a non-empty message.'') w1)
          else
            let w2 = append_message ''user'' user_input w1;
                w3 = st_show (St_chat_message ''user'' user_input) w2;
                pl = \<lparr>prompt = build_prompt_with_history cfg (session w3) user_input,
                      max_tokens = max_tok,
                      temperature = temp,
                      model = model_name,
                      stop = [[LF] @ ''Human:'', [LF, LF] @ ''Human:'', [LF] @ ''System:'']\<rparr>
            in (case send_request_to_model post api_url pl w3 of
                  (Inl e, w4) \<Rightarrow> (Some e, w4)
                | (Inr response, w4) \<Rightarrow>
                    (case response_has_choices response of
                       Inl e \<Rightarrow> (Some e, w4)
                     | Inr False \<Rightarrow>
                         (None, st_show (St_error ''Failed to get a valid response from the model.'') w4)
                     | Inr True \<Rightarrow>
                         (case response_text response of
                            Inl e \<Rightarrow> (Some e, w4)
                          | Inr ai_message \<Rightarrow>
                              (None, st_show (St_chat_message ''assistant'' ai_message)
                                       (append_message ''assistant'' ai_message w4))))))"

subsection \<open>Reset, system-prompt update and the top-level handler\<close>

text \<open>Lines 344-346: the Reset Chat button of \<^verbatim>\<open>sidebar_settings\<close>.\<close>

definition reset_chat :: "world \<Rightarrow> world" where
  "reset_chat w =
     st_show (St_success ''Chat history has been reset.'')
       (w\<lparr>session := (session w)\<lparr>messages := []\<rparr>\<rparr>)"

text \<open>Lines 329-331: the Update System Prompt button.\<close>

definition update_system_prompt :: "string \<Rightarrow> world \<Rightarrow> world" where
  "update_system_prompt p w =
     st_show (St_success ''System prompt updated!'')
       (w\<lparr>session := (session w)\<lparr>system_prompt := p\<rparr>\<rparr>)"

text \<open>
  Lines 360-393: every call of \<^verbatim>\<open>handle_user_input\<close> (from the chat box, line 389, and
  from a quick-prompt button, line 338) runs inside the \<^verbatim>\<open>try\<close> of \<^verbatim>\<open>main\<close>.
\<close>

definition guarded_turn ::
  "config \<Rightarrow> (string \<Rightarrow> payload \<Rightarrow> post_outcome) \<Rightarrow> real \<Rightarrow>
   string \<Rightarrow> string \<Rightarrow> string \<Rightarrow> real \<Rightarrow> int \<Rightarrow> world \<Rightarrow> world"
where
  "guarded_turn cfg post now user_input api_url model_name temp max_tok w =
     (case handle_user_input cfg post now user_input api_url model_name temp max_tok w of
        (None, w') \<Rightarrow> w'
      | (Some e, w') \<Rightarrow>
          st_show (St_error ''An unexpected error occurred. Please refresh the page and try again.'')
            (logger_error (Logger_error_application e) w'))"

text \<open>One user action of a session, with what the clock and the endpoint do during it.\<close>

datatype action =
  Chat_input "string \<Rightarrow> payload \<Rightarrow> post_outcome" real string string string real int
| Quick_prompt "string \<Rightarrow> payload \<Rightarrow> post_outcome" real string string string real int
| Reset_chat
| Update_system_prompt string

fun is_reset :: "action \<Rightarrow> bool" where
  "is_reset Reset_chat = True"
| "is_reset a = False"

fun step :: "config \<Rightarrow> action \<Rightarrow> world \<Rightarrow> world" where
  "step cfg (Chat_input post now user_input api_url model_name temp max_tok) w =
     (if user_input = [] then w
      else guarded_turn cfg post now user_input api_url model_name temp max_tok w)"
| "step cfg (Quick_prompt post now p api_url model_name temp max_tok) w =
     guarded_turn cfg post now p api_url model_name temp max_tok w"
| "step cfg Reset_chat w = reset_chat w"
| "step cfg (Update_system_prompt p) w = update_system_prompt p w"

fun run :: "config \<Rightarrow> action list \<Rightarrow> world \<Rightarrow> world" where
  "run cfg [] w = w"
| "run cfg (a # as) w = run cfg as (step cfg a w)"

definition initial_world :: world where
  "initial_world = \<lparr>session = default_states, ui = [], logged = [], posted = []\<rparr>"

subsection \<open>Sample data\<close>

definition two_turns :: "message list" where
  "two_turns = [\<lparr>role = ''user'', content = ''a''\<rparr>, \<lparr>role = ''assistant'', content = ''b''\<rparr>]"

text \<open>
  \<^verbatim>\<open>requests.exceptions.JSONDecodeError\<close>, which \<^verbatim>\<open>response.json()\<close> raises on a body that is
  not JSON (requests 2.27 and later): the class derives from \<^verbatim>\<open>InvalidJSONError\<close>, a
  \<^verbatim>\<open>RequestException\<close>, and from \<^verbatim>\<open>json.JSONDecodeError\<close>.
\<close>

definition requests_JSONDecodeError :: "string \<Rightarrow> exception" where
  "requests_JSONDecodeError msg =
     \<lparr>is_Timeout = False, is_RequestException = True, is_JSONDecodeError = True, str_e = msg\<rparr>"

text \<open>\<^verbatim>\<open>requests.exceptions.ConnectionError\<close>: a transport fault.\<close>

definition requests_ConnectionError :: "string \<Rightarrow> exception" where
  "requests_ConnectionError msg =
     \<lparr>is_Timeout = False, is_RequestException = True, is_JSONDecodeError = False, str_e = msg\<rparr>"


section \<open>Properties\<close>

lemma join_append_last:
  "xs \<noteq> [] \<Longrightarrow> join sep (xs @ [y]) = join sep xs @ sep @ y"
  by (induction sep xs rule: join.induct) auto

lemma py_slice_from_last:
  "1 \<le> n \<Longrightarrow> py_slice_from xs (- n) = drop (length xs - nat n) xs"
proof -
  assume n: "1 \<le> n"
  have "nat (max (int (length xs) + - n) 0) = length xs - nat n"
    using n by linarith
  with n show ?thesis
    by (simp add: py_slice_from_def Let_def del: max.absorb1 max.absorb2 max.absorb3 max.absorb4)
qed

subsection \<open>Rate limiter\<close>

text \<open>
  Claim C3. For every state and every clock value \<open>now\<close>: when
  \<open>now - last_request_time < min_interval\<close> the gate answers false and leaves the session
  state (so \<open>last_request_time\<close>) as it was; otherwise it answers true and sets
  \<open>last_request_time\<close> to \<open>now\<close>. \<open>last_request_time\<close> changes only in the success case.
\<close>

theorem rate_limit_check_contract:
  "(now - last_request_time (session w) < RATE_LIMIT_SECONDS cfg \<longrightarrow>
      fst (rate_limit_check cfg now w) = False \<and>
      session (snd (rate_limit_check cfg now w)) = session w) \<and>
   (\<not> now - last_request_time (session w) < RATE_LIMIT_SECONDS cfg \<longrightarrow>
      fst (rate_limit_check cfg now w) = True \<and>
      session (snd (rate_limit_check cfg now w)) = (session w)\<lparr>last_request_time := now\<rparr>) \<and>
   (last_request_time (session (snd (rate_limit_check cfg now w))) \<noteq> last_request_time (session w) \<longrightarrow>
      fst (rate_limit_check cfg now w) = True)"
  by (simp add: rate_limit_check_def st_show_def)

theorem rate_limit_check_contract_witness:
  "fst (rate_limit_check default_config 10 initial_world) = True \<and>
   last_request_time (session (snd (rate_limit_check default_config 10 initial_world))) = 10 \<and>
   fst (rate_limit_check default_config (1/2) initial_world) = False \<and>
   last_request_time (session (snd (rate_limit_check default_config (1/2) initial_world))) = 0"
proof -
  have allowed: "\<not> 10 - last_request_time (session initial_world) < RATE_LIMIT_SECONDS default_config"
    by (simp add: initial_world_def default_states_def default_config_def)
  have denied: "1/2 - last_request_time (session initial_world) < RATE_LIMIT_SECONDS default_config"
    by (simp add: initial_world_def default_states_def default_config_def)
  have zero: "last_request_time (session initial_world) = 0"
    by (simp add: initial_world_def default_states_def)
  from rate_limit_check_contract [of 10 initial_world default_config] allowed
       rate_limit_check_contract [of "1/2" initial_world default_config] denied zero
  show ?thesis by simp
qed

lemma length_rate_limit_trace: "length (rate_limit_trace cfg ts w) = length ts"
  by (induction ts arbitrary: w) auto

lemma rate_limit_allowed_after_last:
  "0 \<le> RATE_LIMIT_SECONDS cfg \<Longrightarrow> j < length ts \<Longrightarrow> rate_limit_trace cfg ts w ! j \<Longrightarrow>
   RATE_LIMIT_SECONDS cfg \<le> ts ! j - last_request_time (session w)"
proof (induction ts arbitrary: w j)
  case Nil
  then show ?case by simp
next
  case (Cons t ts)
  show ?case
  proof (cases j)
    case 0
    with Cons.prems show ?thesis
      by (auto simp: rate_limit_check_def split: if_splits)
  next
    case (Suc k)
    with Cons.prems have k: "k < length ts"
      and ok: "rate_limit_trace cfg ts (snd (rate_limit_check cfg t w)) ! k"
      by auto
    from Cons.IH [OF Cons.prems(1) k ok]
    have step: "RATE_LIMIT_SECONDS cfg \<le> ts ! k - last_request_time (session (snd (rate_limit_check cfg t w)))" .
    show ?thesis
    proof (cases "t - last_request_time (session w) < RATE_LIMIT_SECONDS cfg")
      case True
      with step Suc show ?thesis by (simp add: rate_limit_check_def st_show_def)
    next
      case False
      with step Suc Cons.prems(1) show ?thesis by (simp add: rate_limit_check_def)
    qed
  qed
qed

lemma rate_limit_signed_gap:
  "0 \<le> RATE_LIMIT_SECONDS cfg \<Longrightarrow> i < j \<Longrightarrow> j < length ts \<Longrightarrow>
   rate_limit_trace cfg ts w ! i \<Longrightarrow> rate_limit_trace cfg ts w ! j \<Longrightarrow>
   RATE_LIMIT_SECONDS cfg \<le> ts ! j - ts ! i"
proof (induction ts arbitrary: w i j)
  case Nil
  then show ?case by simp
next
  case (Cons t ts)
  from Cons.prems(2) obtain k where j: "j = Suc k" by (cases j) auto
  with Cons.prems have k: "k < length ts"
    and okk: "rate_limit_trace cfg ts (snd (rate_limit_check cfg t w)) ! k"
    by auto
  show ?case
  proof (cases i)
    case 0
    with Cons.prems(4) have allowed: "\<not> t - last_request_time (session w) < RATE_LIMIT_SECONDS cfg"
      by (auto simp: rate_limit_check_def split: if_splits)
    then have "last_request_time (session (snd (rate_limit_check cfg t w))) = t"
      by (simp add: rate_limit_check_def)
    with rate_limit_allowed_after_last [OF Cons.prems(1) k okk] 0 j show ?thesis by simp
  next
    case (Suc i')
    with Cons.prems j have "i' < k"
      and "rate_limit_trace cfg ts (snd (rate_limit_check cfg t w)) ! i'"
      by auto
    from Cons.IH [OF Cons.prems(1) this(1) k this(2) okk] Suc j show ?thesis by simp
  qed
qed

text \<open>
  Claim C8. For every trace of rate-limit gate calls on the same state, no two calls that
  both answer true lie within \<open>min_interval\<close> of each other: the distance in time between
  any two successful gates is at least \<open>min_interval\<close>.
\<close>

theorem rate_limit_min_gap:
  "i < j \<Longrightarrow> j < length nows \<Longrightarrow>
   rate_limit_trace cfg nows w ! i \<Longrightarrow> rate_limit_trace cfg nows w ! j \<Longrightarrow>
   RATE_LIMIT_SECONDS cfg \<le> \<bar>nows ! j - nows ! i\<bar>"
proof (cases "0 \<le> RATE_LIMIT_SECONDS cfg")
  case True
  assume "i < j" "j < length nows" "rate_limit_trace cfg nows w ! i" "rate_limit_trace cfg nows w ! j"
  from rate_limit_signed_gap [OF True this] show ?thesis by simp
next
  case False
  then show ?thesis by simp
qed

theorem rate_limit_min_gap_witness:
  "rate_limit_trace default_config [10, 21/2, 11, 56/5, 25/2] initial_world = [True, False, True, False, True] \<and>
   RATE_LIMIT_SECONDS default_config \<le> \<bar>[10, 21/2, 11, 56/5, 25/2] ! 4 - [10, 21/2, 11, 56/5, 25/2 :: real] ! 2\<bar>"
proof -
  have tr: "rate_limit_trace default_config [10, 21/2, 11, 56/5, 25/2] initial_world = [True, False, True, False, True]"
    by (simp add: rate_limit_check_def st_show_def default_config_def initial_world_def default_states_def)
  have third: "rate_limit_trace default_config [10, 21/2, 11, 56/5, 25/2] initial_world ! 2"
    unfolding tr by simp
  have fifth: "rate_limit_trace default_config [10, 21/2, 11, 56/5, 25/2] initial_world ! 4"
    unfolding tr by simp
  have "RATE_LIMIT_SECONDS default_config \<le> \<bar>[10, 21/2, 11, 56/5, 25/2] ! 4 - [10, 21/2, 11, 56/5, 25/2 :: real] ! 2\<bar>"
    using rate_limit_min_gap [of 2 4 "[10, 21/2, 11, 56/5, 25/2]" default_config initial_world] third fifth
    by simp
  with tr show ?thesis by simp
qed

subsection \<open>Reset\<close>

text \<open>
  Claim C9. For every session state, the reset operation sets the message log to empty
  and leaves the system prompt and every other field of the session state unchanged.
\<close>

theorem reset_chat_frame:
  "session (reset_chat w) = (session w)\<lparr>messages := []\<rparr> \<and>
   messages (session (reset_chat w)) = [] \<and>
   system_prompt (session (reset_chat w)) = system_prompt (session w) \<and>
   last_request_time (session (reset_chat w)) = last_request_time (session w) \<and>
   api_health (session (reset_chat w)) = api_health (session w) \<and>
   last_api_check (session (reset_chat w)) = last_api_check (session w) \<and>
   chat_style (session (reset_chat w)) = chat_style (session w)"
  by (simp add: reset_chat_def st_show_def)

subsection \<open>Prompt builder\<close>

text \<open>
  The prompt for the system prompt "Be terse.", no history and the input "Hi" is not the
  string with a single line feed after the system line.
\<close>

theorem build_prompt_example_counterexample:
  "build_prompt_with_history default_config (default_states\<lparr>system_prompt := ''Be terse.''\<rparr>) ''Hi''
     \<noteq> ''System: Be terse.'' @ [LF] @ ''Human: Hi'' @ [LF] @ ''Assistant:''"
  by (simp add: build_prompt_with_history_def py_slice_from_def default_states_def)

text \<open>
  Claim C2, as amended. For every state whose system prompt is "Be terse." and whose
  message log is empty, the prompt built for the input "Hi" is
  "System: Be terse." followed by two line feeds, "Human: Hi", a line feed and
  "Assistant:": the system line carries a line feed of its own before the joining one.
\<close>

theorem build_prompt_example:
  "system_prompt s = ''Be terse.'' \<Longrightarrow> messages s = [] \<Longrightarrow>
   build_prompt_with_history cfg s ''Hi'' =
     ''System: Be terse.'' @ [LF, LF] @ ''Human: Hi'' @ [LF] @ ''Assistant:''"
  by (simp add: build_prompt_with_history_def py_slice_from_def)

theorem build_prompt_example_witness:
  "system_prompt (default_states\<lparr>system_prompt := ''Be terse.''\<rparr>) = ''Be terse.'' \<and>
   messages (default_states\<lparr>system_prompt := ''Be terse.''\<rparr>) = [] \<and>
   build_prompt_with_history default_config (default_states\<lparr>system_prompt := ''Be terse.''\<rparr>) ''Hi'' =
     ''System: Be terse.'' @ [LF, LF] @ ''Human: Hi'' @ [LF] @ ''Assistant:''"
proof -
  have a: "system_prompt (default_states\<lparr>system_prompt := ''Be terse.''\<rparr>) = ''Be terse.''"
    by simp
  have b: "messages (default_states\<lparr>system_prompt := ''Be terse.''\<rparr>) = []"
    by (simp add: default_states_def)
  from build_prompt_example [OF a b, of default_config] a b show ?thesis by simp
qed

lemma format_message_by_role:
  "format_message m = (if role m = ''user'' then ''Human: '' else ''Assistant: '') @ content m"
  by (simp add: format_message_def)

text \<open>
  Claim C5, as amended. For every state and every input the prompt ends with the cue line
  "Assistant:"; and when the history window \<open>N\<close> is at least 1, the prompt is the system
  line (if any), then the last \<open>N\<close> messages of the log, at most \<open>N\<close> of them, each
  written "Human: content" or "Assistant: content" by its role, then the new
  "Human: input" line, joined by line feeds, then the cue.
\<close>

theorem build_prompt_window:
  "suffix ([LF] @ ''Assistant:'') (build_prompt_with_history cfg s u) \<and>
   (1 \<le> MAX_HISTORY_MESSAGES cfg \<longrightarrow>
      build_prompt_with_history cfg s u =
        join [LF]
          ((if system_prompt s \<noteq> [] then [''System: '' @ system_prompt s @ [LF]] else []) @
           map (\<lambda>m. (if role m = ''user'' then ''Human: '' else ''Assistant: '') @ content m)
             (drop (length (messages s) - nat (MAX_HISTORY_MESSAGES cfg)) (messages s)) @
           [''Human: '' @ u])
        @ [LF] @ ''Assistant:'' \<and>
      length (drop (length (messages s) - nat (MAX_HISTORY_MESSAGES cfg)) (messages s))
        \<le> nat (MAX_HISTORY_MESSAGES cfg))"
proof (intro conjI impI)
  show "suffix ([LF] @ ''Assistant:'') (build_prompt_with_history cfg s u)"
    unfolding build_prompt_with_history_def Let_def by (rule suffixI) simp
next
  assume n: "1 \<le> MAX_HISTORY_MESSAGES cfg"
  have fmt: "map format_message xs =
      map (\<lambda>m. (if role m = ''user'' then ''Human: '' else ''Assistant: '') @ content m) xs" for xs
    by (rule map_cong) (simp_all only: format_message_by_role)
  show "build_prompt_with_history cfg s u =
        join [LF]
          ((if system_prompt s \<noteq> [] then [''System: '' @ system_prompt s @ [LF]] else []) @
           map (\<lambda>m. (if role m = ''user'' then ''Human: '' else ''Assistant: '') @ content m)
             (drop (length (messages s) - nat (MAX_HISTORY_MESSAGES cfg)) (messages s)) @
           [''Human: '' @ u])
        @ [LF] @ ''Assistant:''"
    unfolding build_prompt_with_history_def Let_def py_slice_from_last [OF n] fmt
    by (simp only: append_assoc)
next
  show "length (drop (length (messages s) - nat (MAX_HISTORY_MESSAGES cfg)) (messages s))
        \<le> nat (MAX_HISTORY_MESSAGES cfg)"
    by simp
qed

text \<open>With the window 0 the slice is the whole log: both earlier messages are in the prompt.\<close>

theorem build_prompt_window_counterexample:
  "build_prompt_with_history (default_config\<lparr>MAX_HISTORY_MESSAGES := 0\<rparr>)
     (default_states\<lparr>system_prompt := [], messages := two_turns\<rparr>) ''Hi'' =
   ''Human: a'' @ [LF] @ ''Assistant: b'' @ [LF] @ ''Human: Hi'' @ [LF] @ ''Assistant:''"
  by (simp add: build_prompt_with_history_def py_slice_from_def format_message_def two_turns_def)

theorem build_prompt_window_witness:
  "1 \<le> MAX_HISTORY_MESSAGES (default_config\<lparr>MAX_HISTORY_MESSAGES := 1\<rparr>) \<and>
   build_prompt_with_history (default_config\<lparr>MAX_HISTORY_MESSAGES := 1\<rparr>)
     (default_states\<lparr>system_prompt := [], messages := two_turns\<rparr>) ''Hi'' =
   ''Assistant: b'' @ [LF] @ ''Human: Hi'' @ [LF] @ ''Assistant:''"
proof -
  have n: "1 \<le> MAX_HISTORY_MESSAGES (default_config\<lparr>MAX_HISTORY_MESSAGES := 1\<rparr>)"
    by simp
  from build_prompt_window [of "default_config\<lparr>MAX_HISTORY_MESSAGES := 1\<rparr>"
      "default_states\<lparr>system_prompt := [], messages := two_turns\<rparr>" "''Hi''"] n
  show ?thesis by (simp add: two_turns_def)
qed

subsection \<open>Controller\<close>

lemma st_show_fields [simp]:
  "session (st_show e w) = session w"
  "ui (st_show e w) = ui w @ [e]"
  "logged (st_show e w) = logged w"
  "posted (st_show e w) = posted w"
  by (simp_all add: st_show_def)

lemma logger_error_fields [simp]:
  "session (logger_error l w) = session w"
  "ui (logger_error l w) = ui w"
  "logged (logger_error l w) = logged w @ [l]"
  "posted (logger_error l w) = posted w"
  by (simp_all add: logger_error_def)

lemma append_message_fields [simp]:
  "session (append_message r c w) =
     (session w)\<lparr>messages := messages (session w) @ [\<lparr>role = r, content = c\<rparr>]\<rparr>"
  "ui (append_message r c w) = ui w"
  "logged (append_message r c w) = logged w"
  "posted (append_message r c w) = posted w"
  by (simp_all add: append_message_def)

lemma handle_user_input_denied:
  "now - last_request_time (session w) < RATE_LIMIT_SECONDS cfg \<Longrightarrow>
   handle_user_input cfg post now user_input api_url model_name temp max_tok w =
     (None, st_show (St_warning_wait (RATE_LIMIT_SECONDS cfg)) w)"
  by (simp add: handle_user_input_def rate_limit_check_def)

lemma handle_user_input_blank:
  "\<not> now - last_request_time (session w) < RATE_LIMIT_SECONDS cfg \<Longrightarrow>
   py_strip user_input = [] \<Longrightarrow>
   handle_user_input cfg post now user_input api_url model_name temp max_tok w =
     (None, st_show (St_warning ''Please enter a non-empty message.'')
              (w\<lparr>session := (session w)\<lparr>last_request_time := now\<rparr>\<rparr>))"
  by (simp add: handle_user_input_def rate_limit_check_def)

text \<open>
  Claim C1, as amended. For every user turn the rate-limit check precedes input
  validation. A turn whose input is empty or whitespace-only aborts with the wait warning
  and an unchanged state when the limiter denies; when the limiter allows, it aborts at
  validation with the non-empty-message warning after the limiter has set
  \<open>last_request_time\<close> to \<open>now\<close>. Either way nothing is appended to the log or posted.
\<close>

theorem blank_input_after_rate_limit:
  "py_strip user_input = [] \<Longrightarrow>
   handle_user_input cfg post now user_input api_url model_name temp max_tok w =
     (if now - last_request_time (session w) < RATE_LIMIT_SECONDS cfg
      then (None, st_show (St_warning_wait (RATE_LIMIT_SECONDS cfg)) w)
      else (None, st_show (St_warning ''Please enter a non-empty message.'')
                    (w\<lparr>session := (session w)\<lparr>last_request_time := now\<rparr>\<rparr>)))"
  by (simp add: handle_user_input_denied handle_user_input_blank)

lemma py_strip_blanks: "py_strip ''   '' = []"
  by (simp add: py_strip_def py_isspace_def)

text \<open>
  A whitespace-only input at time 10 in the initial state: the gate has been consulted and
  \<open>last_request_time\<close> has moved from 0 to 10.
\<close>

theorem blank_input_counterexample:
  "py_strip ''   '' = [] \<and>
   last_request_time (session initial_world) = 0 \<and>
   last_request_time (session (snd (handle_user_input default_config (\<lambda>url pl. Returns JNull) 10
      ''   '' ''http://127.0.0.1:1234/v1/completions'' ''your-model-name'' (7/10) 512 initial_world))) = 10"
  by (simp add: py_strip_blanks handle_user_input_blank initial_world_def default_states_def default_config_def)

theorem blank_input_after_rate_limit_witness:
  "py_strip ''   '' = [] \<and>
   handle_user_input default_config (\<lambda>url pl. Returns JNull) 10
      ''   '' ''http://127.0.0.1:1234/v1/completions'' ''your-model-name'' (7/10) 512 initial_world =
   (None, st_show (St_warning ''Please enter a non-empty message.'')
            (initial_world\<lparr>session := default_states\<lparr>last_request_time := 10\<rparr>\<rparr>))"
  using blank_input_after_rate_limit [OF py_strip_blanks, of default_config "\<lambda>url pl. Returns JNull" 10
      "''http://127.0.0.1:1234/v1/completions''" "''your-model-name''" "7/10" 512 initial_world]
  by (simp add: py_strip_blanks initial_world_def default_states_def default_config_def)

lemma send_request_to_model_frame [simp]:
  "session (snd (send_request_to_model post api_url pl w)) = session w"
  "posted (snd (send_request_to_model post api_url pl w)) = posted w @ [(api_url, pl)]"
  by (simp_all add: send_request_to_model_def Let_def split: post_outcome.splits)

lemma handle_user_input_allowed:
  assumes "\<not> now - last_request_time (session w) < RATE_LIMIT_SECONDS cfg"
    and "py_strip user_input \<noteq> []"
  shows "handle_user_input cfg post now user_input api_url model_name temp max_tok w =
     (let w3 = st_show (St_chat_message ''user'' user_input)
                 (append_message ''user'' user_input
                    (w\<lparr>session := (session w)\<lparr>last_request_time := now\<rparr>\<rparr>));
          pl = \<lparr>prompt = build_prompt_with_history cfg (session w3) user_input,
                max_tokens = max_tok, temperature = temp, model = model_name,
                stop = [[LF] @ ''Human:'', [LF, LF] @ ''Human:'', [LF] @ ''System:'']\<rparr>
      in (case send_request_to_model post api_url pl w3 of
            (Inl e, w4) \<Rightarrow> (Some e, w4)
          | (Inr response, w4) \<Rightarrow>
              (case response_has_choices response of
                 Inl e \<Rightarrow> (Some e, w4)
               | Inr False \<Rightarrow>
                   (None, st_show (St_error ''Failed to get a valid response from the model.'') w4)
               | Inr True \<Rightarrow>
                   (case response_text response of
                      Inl e \<Rightarrow> (Some e, w4)
                    | Inr ai_message \<Rightarrow>
                        (None, st_show (St_chat_message ''assistant'' ai_message)
                                 (append_message ''assistant'' ai_message w4))))))"
  using assms by (simp add: handle_user_input_def rate_limit_check_def Let_def)

lemma handle_user_input_posted:
  assumes "\<not> now - last_request_time (session w) < RATE_LIMIT_SECONDS cfg"
    and "py_strip user_input \<noteq> []"
  shows "posted (snd (handle_user_input cfg post now user_input api_url model_name temp max_tok w)) =
     posted w @
     [(api_url,
       \<lparr>prompt = build_prompt_with_history cfg
           ((session w)\<lparr>last_request_time := now,
                        messages := messages (session w) @ [\<lparr>role = ''user'', content = user_input\<rparr>]\<rparr>)
           user_input,
        max_tokens = max_tok, temperature = temp, model = model_name,
        stop = [[LF] @ ''Human:'', [LF, LF] @ ''Human:'', [LF] @ ''System:'']\<rparr>)]"
proof -
  let ?w3 = "st_show (St_chat_message ''user'' user_input)
                 (append_message ''user'' user_input
                    (w\<lparr>session := (session w)\<lparr>last_request_time := now\<rparr>\<rparr>))"
  let ?pl = "\<lparr>prompt = build_prompt_with_history cfg (session ?w3) user_input,
                max_tokens = max_tok, temperature = temp, model = model_name,
                stop = [[LF] @ ''Human:'', [LF, LF] @ ''Human:'', [LF] @ ''System:'']\<rparr>"
  obtain r w4 where sr: "send_request_to_model post api_url ?pl ?w3 = (r, w4)"
    by (cases "send_request_to_model post api_url ?pl ?w3")
  have "posted (snd (send_request_to_model post api_url ?pl ?w3)) = posted ?w3 @ [(api_url, ?pl)]"
    by (rule send_request_to_model_frame)
  with sr have p4: "posted w4 = posted w @ [(api_url, ?pl)]" by simp
  have "posted (snd (handle_user_input cfg post now user_input api_url model_name temp max_tok w)) = posted w4"
    unfolding handle_user_input_allowed [OF assms] Let_def sr
    by (simp split: sum.splits bool.splits)
  with p4 show ?thesis by simp
qed

lemma slice_after_append:
  assumes "1 \<le> n"
  shows "py_slice_from (xs @ [x]) (- n) = drop (Suc (length xs) - nat n) xs @ [x]"
proof -
  from assms have "Suc (length xs) - nat n \<le> length xs" by linarith
  then show ?thesis by (simp add: py_slice_from_last [OF assms])
qed

text \<open>
  Claim C10. For every user turn that passes the rate limiter and validation, when the
  history window is at least 1, the prompt posted to the endpoint carries the new input
  twice: the user turn is appended to the log before the prompt is built, so the trailing
  slice ends with it, and the builder adds a second "Human: input" line.
\<close>

theorem user_input_twice_in_prompt:
  assumes "\<not> now - last_request_time (session w) < RATE_LIMIT_SECONDS cfg"
    and "py_strip user_input \<noteq> []"
    and "1 \<le> MAX_HISTORY_MESSAGES cfg"
  shows "\<exists>pl. posted (snd (handle_user_input cfg post now user_input api_url model_name temp max_tok w)) =
            posted w @ [(api_url, pl)] \<and>
          prompt pl =
            join [LF]
              ((if system_prompt (session w) \<noteq> [] then [''System: '' @ system_prompt (session w) @ [LF]]
                else []) @
               map format_message
                 (drop (Suc (length (messages (session w))) - nat (MAX_HISTORY_MESSAGES cfg))
                    (messages (session w))) @
               [''Human: '' @ user_input, ''Human: '' @ user_input])
            @ [LF] @ ''Assistant:''"
proof -
  let ?s = "(session w)\<lparr>last_request_time := now,
              messages := messages (session w) @ [\<lparr>role = ''user'', content = user_input\<rparr>]\<rparr>"
  let ?pl = "\<lparr>prompt = build_prompt_with_history cfg ?s user_input,
              max_tokens = max_tok, temperature = temp, model = model_name,
              stop = [[LF] @ ''Human:'', [LF, LF] @ ''Human:'', [LF] @ ''System:'']\<rparr>"
  have sent: "posted (snd (handle_user_input cfg post now user_input api_url model_name temp max_tok w)) =
      posted w @ [(api_url, ?pl)]"
    by (rule handle_user_input_posted [OF assms(1,2)])
  have user_line: "format_message \<lparr>role = ''user'', content = user_input\<rparr> = ''Human: '' @ user_input"
    by (simp add: format_message_def)
  have "build_prompt_with_history cfg ?s user_input =
      join [LF]
        ((if system_prompt (session w) \<noteq> [] then [''System: '' @ system_prompt (session w) @ [LF]]
          else []) @
         map format_message
           (drop (Suc (length (messages (session w))) - nat (MAX_HISTORY_MESSAGES cfg))
              (messages (session w))) @
         [''Human: '' @ user_input, ''Human: '' @ user_input])
      @ [LF] @ ''Assistant:''"
    by (simp add: build_prompt_with_history_def Let_def slice_after_append [OF assms(3)] user_line)
  then have "prompt ?pl = join [LF]
        ((if system_prompt (session w) \<noteq> [] then [''System: '' @ system_prompt (session w) @ [LF]]
          else []) @
         map format_message
           (drop (Suc (length (messages (session w))) - nat (MAX_HISTORY_MESSAGES cfg))
              (messages (session w))) @
         [''Human: '' @ user_input, ''Human: '' @ user_input])
      @ [LF] @ ''Assistant:''"
    by simp
  with sent show ?thesis by blast
qed

lemma py_strip_Hi: "py_strip ''Hi'' = ''Hi''"
  by (simp add: py_strip_def py_isspace_def)

theorem user_input_twice_in_prompt_witness:
  "\<exists>pl. posted (snd (handle_user_input default_config (\<lambda>url pl. Returns JNull) 10 ''Hi''
             ''http://127.0.0.1:1234/v1/completions'' ''your-model-name'' (7/10) 512
             (initial_world\<lparr>session := default_states\<lparr>system_prompt := ''Be terse.''\<rparr>\<rparr>))) =
          [(''http://127.0.0.1:1234/v1/completions'', pl)] \<and>
        prompt pl = ''System: Be terse.'' @ [LF, LF] @ ''Human: Hi'' @ [LF] @ ''Human: Hi'' @ [LF] @ ''Assistant:''"
proof -
  let ?w = "initial_world\<lparr>session := default_states\<lparr>system_prompt := ''Be terse.''\<rparr>\<rparr>"
  have a: "\<not> 10 - last_request_time (session ?w) < RATE_LIMIT_SECONDS default_config"
    by (simp add: default_states_def default_config_def)
  have b: "py_strip ''Hi'' \<noteq> []"
    by (simp add: py_strip_Hi)
  have c: "1 \<le> MAX_HISTORY_MESSAGES default_config"
    by (simp add: default_config_def)
  from user_input_twice_in_prompt [OF a b c, of "\<lambda>url pl. Returns JNull"
      "''http://127.0.0.1:1234/v1/completions''" "''your-model-name''" "7/10" 512]
  show ?thesis
    by (simp add: initial_world_def default_states_def)
qed

text \<open>
  Claim C7 at a body that is not JSON: the exception \<^verbatim>\<open>response.json()\<close> raises is a
  \<^verbatim>\<open>RequestException\<close>, so the second \<^verbatim>\<open>except\<close> clause takes it and the report is the one
  of a transport fault with the same text; the third clause is not reached.
\<close>

theorem undecodable_body_reported_as_transport_error:
  "send_request_to_model (\<lambda>url pl. Raises (requests_JSONDecodeError msg)) api_url pl w =
     (Inr JNull,
      logger_error (Logger_error (''API request failed: '' @ msg))
        (st_show (St_error (''API Error: '' @ msg)) (w\<lparr>posted := posted w @ [(api_url, pl)]\<rparr>))) \<and>
   send_request_to_model (\<lambda>url pl. Raises (requests_JSONDecodeError msg)) api_url pl w =
     send_request_to_model (\<lambda>url pl. Raises (requests_ConnectionError msg)) api_url pl w"
  by (simp add: send_request_to_model_def requests_JSONDecodeError_def requests_ConnectionError_def)


lemma send_request_to_model_returns:
  "post api_url pl = Returns j \<Longrightarrow>
   send_request_to_model post api_url pl w = (Inr j, w\<lparr>posted := posted w @ [(api_url, pl)]\<rparr>)"
  by (simp add: send_request_to_model_def Let_def)








subsection \<open>The message log over a session\<close>

lemma handle_user_input_messages:
  "prefix (messages (session w))
     (messages (session (snd (handle_user_input cfg post now user_input api_url model_name temp max_tok w))))"
proof (cases "now - last_request_time (session w) < RATE_LIMIT_SECONDS cfg")
  case True
  then show ?thesis by (simp add: handle_user_input_denied)
next
  case allowed: False
  show ?thesis
  proof (cases "py_strip user_input = []")
    case True
    with allowed show ?thesis by (simp add: handle_user_input_blank)
  next
    case False
    let ?w3 = "st_show (St_chat_message ''user'' user_input)
                 (append_message ''user'' user_input
                    (w\<lparr>session := (session w)\<lparr>last_request_time := now\<rparr>\<rparr>))"
    let ?pl = "\<lparr>prompt = build_prompt_with_history cfg (session ?w3) user_input,
                max_tokens = max_tok, temperature = temp, model = model_name,
                stop = [[LF] @ ''Human:'', [LF, LF] @ ''Human:'', [LF] @ ''System:'']\<rparr>"
    obtain r w4 where sr: "send_request_to_model post api_url ?pl ?w3 = (r, w4)"
      by (cases "send_request_to_model post api_url ?pl ?w3")
    have "session (snd (send_request_to_model post api_url ?pl ?w3)) = session ?w3"
      by (rule send_request_to_model_frame)
    with sr have s4: "messages (session w4) =
        messages (session w) @ [\<lparr>role = ''user'', content = user_input\<rparr>]"
      by simp
    show ?thesis
      unfolding handle_user_input_allowed [OF allowed False] Let_def sr
      by (simp add: s4 split: sum.splits bool.splits)
  qed
qed

lemma guarded_turn_messages:
  "prefix (messages (session w))
     (messages (session (guarded_turn cfg post now user_input api_url model_name temp max_tok w)))"
proof -
  obtain r w' where h: "handle_user_input cfg post now user_input api_url model_name temp max_tok w = (r, w')"
    by (cases "handle_user_input cfg post now user_input api_url model_name temp max_tok w")
  from handle_user_input_messages [of w cfg post now user_input api_url model_name temp max_tok] h
  have "prefix (messages (session w)) (messages (session w'))" by simp
  with h show ?thesis
    by (cases r) (simp_all add: guarded_turn_def)
qed

lemma step_messages:
  "messages (session (step cfg a w)) = [] \<and> is_reset a \<or>
   prefix (messages (session w)) (messages (session (step cfg a w))) \<and> \<not> is_reset a"
  by (cases a) (simp_all add: guarded_turn_messages reset_chat_def update_system_prompt_def)

lemma run_append: "run cfg (as @ bs) w = run cfg bs (run cfg as w)"
  by (induction as arbitrary: w) simp_all

lemma run_messages:
  "\<forall>a \<in> set as. \<not> is_reset a \<Longrightarrow> prefix (messages (session w)) (messages (session (run cfg as w)))"
proof (induction as arbitrary: w)
  case Nil
  then show ?case by simp
next
  case (Cons a as)
  from Cons.prems have "\<not> is_reset a" by simp
  with step_messages [of cfg a w]
  have "prefix (messages (session w)) (messages (session (step cfg a w)))" by blast
  moreover from Cons have "prefix (messages (session (step cfg a w)))
      (messages (session (run cfg as (step cfg a w))))" by simp
  ultimately show ?case by (auto intro: prefix_order.trans)
qed

text \<open>
  Claim C6. For every sequence of controller operations within a session, each operation
  other than the explicit reset leaves the earlier message log as a prefix of the new one
  (appends only: no reordering, no drops), and the reset empties it; so a sequence without
  a reset only extends the log. Building the prompt inside a turn takes a trailing slice
  of the log and leaves the stored log as it is.
\<close>

theorem messages_only_appended:
  "(\<forall>k < length as.
      if is_reset (as ! k)
      then messages (session (run cfg (take (Suc k) as) w)) = []
      else prefix (messages (session (run cfg (take k as) w)))
             (messages (session (run cfg (take (Suc k) as) w)))) \<and>
   ((\<forall>a \<in> set as. \<not> is_reset a) \<longrightarrow>
      prefix (messages (session w)) (messages (session (run cfg as w))))"
proof (intro conjI allI impI)
  fix k assume k: "k < length as"
  then have "run cfg (take (Suc k) as) w = step cfg (as ! k) (run cfg (take k as) w)"
    by (simp add: take_Suc_conv_app_nth run_append)
  with step_messages [of cfg "as ! k" "run cfg (take k as) w"]
  show "if is_reset (as ! k)
      then messages (session (run cfg (take (Suc k) as) w)) = []
      else prefix (messages (session (run cfg (take k as) w)))
             (messages (session (run cfg (take (Suc k) as) w)))"
    by auto
next
  assume "\<forall>a \<in> set as. \<not> is_reset a"
  then show "prefix (messages (session w)) (messages (session (run cfg as w)))"
    by (rule run_messages)
qed

lemma successful_turn_messages:
  "messages (session (run default_config
      [Chat_input (\<lambda>url pl. Returns (JObj [(''choices'', JArr [JObj [(''text'', JStr '' hi '')]])]))
         10 ''Hi'' ''http://127.0.0.1:1234/v1/completions'' ''your-model-name'' (7/10) 512]
      initial_world)) =
   [\<lparr>role = ''user'', content = ''Hi''\<rparr>, \<lparr>role = ''assistant'', content = ''hi''\<rparr>]"
proof -
  have a: "\<not> 10 - last_request_time (session initial_world) < RATE_LIMIT_SECONDS default_config"
    by (simp add: initial_world_def default_states_def default_config_def)
  have b: "py_strip ''Hi'' \<noteq> []"
    by (simp add: py_strip_Hi)
  have c: "response_has_choices (JObj [(''choices'', JArr [JObj [(''text'', JStr '' hi '')]])]) = Inr True"
    by (simp add: response_has_choices_def bind_exn_def)
  have d: "response_text (JObj [(''choices'', JArr [JObj [(''text'', JStr '' hi '')]])]) = Inr ''hi''"
    by (simp add: response_text_def bind_exn_def py_strip_def py_isspace_def)
  have m: "messages (session initial_world) = []"
    by (simp add: initial_world_def default_states_def)
  show ?thesis
    unfolding run.simps step.simps guarded_turn_def handle_user_input_allowed [OF a b] Let_def
    by (simp add: send_request_to_model_returns c d m)
qed

theorem messages_only_appended_witness:
  "prefix (messages (session initial_world))
     (messages (session (run default_config
        [Chat_input (\<lambda>url pl. Returns (JObj [(''choices'', JArr [JObj [(''text'', JStr '' hi '')]])]))
           10 ''Hi'' ''http://127.0.0.1:1234/v1/completions'' ''your-model-name'' (7/10) 512]
        initial_world))) \<and>
   messages (session (run default_config
      [Chat_input (\<lambda>url pl. Returns (JObj [(''choices'', JArr [JObj [(''text'', JStr '' hi '')]])]))
         10 ''Hi'' ''http://127.0.0.1:1234/v1/completions'' ''your-model-name'' (7/10) 512]
      initial_world)) =
   [\<lparr>role = ''user'', content = ''Hi''\<rparr>, \<lparr>role = ''assistant'', content = ''hi''\<rparr>]"
proof -
  have no_reset: "\<forall>a \<in> set
      [Chat_input (\<lambda>url pl. Returns (JObj [(''choices'', JArr [JObj [(''text'', JStr '' hi '')]])]))
         10 ''Hi'' ''http://127.0.0.1:1234/v1/completions'' ''your-model-name'' (7/10) 512].
      \<not> is_reset a"
    by simp
  note grown = messages_only_appended [THEN conjunct2, THEN mp, OF no_reset,
      of initial_world default_config]
  with successful_turn_messages show ?thesis by blast
qed

end
